theory Spec2Isabelle
  imports Complex_Main "HOL-Library.AList"
begin

section \<open>Values\<close>

text \<open>
  A document is a JSON value. An object is the list of its members, under distinct
  names; numbers are rationals (the code modelled here only ever asks whether a number
  is zero).
\<close>

datatype json =
    JNull
  | JBool bool
  | JNum rat
  | JStr string
  | JArr "json list"
  | JObj "(string \<times> json) list"

text \<open>JavaScript's ToBoolean on a JSON value: what \<open>if (v)\<close> and \<open>v || d\<close> test.\<close>

fun truthy :: "json \<Rightarrow> bool" where
  "truthy JNull = False"
| "truthy (JBool b) = b"
| "truthy (JNum n) = (n \<noteq> 0)"
| "truthy (JStr s) = (s \<noteq> [])"
| "truthy (JArr xs) = True"
| "truthy (JObj kvs) = True"

text \<open>
  What reading a property can give besides a JSON value: \<open>undefined\<close>, or something
  built in: \<open>Object.prototype\<close> itself, the member of \<open>Object.prototype\<close> under a
  name, or the method of \<open>Array.prototype\<close> under a name. The built-in values are
  objects and functions, so they are truthy, and none of them has a \<open>render\<close>.
\<close>

datatype builtin = ObjectPrototype | ObjectMember string | ArrayMember string

datatype jsvalue = Undefined | Data json | Builtin builtin

fun truthy_value :: "jsvalue \<Rightarrow> bool" where
  "truthy_value Undefined = False"
| "truthy_value (Data v) = truthy v"
| "truthy_value (Builtin b) = True"

section \<open>Plain objects used as dictionaries\<close>

text \<open>
  \<open>DataManager.cache\<close>, the \<open>defaults\<close> table and \<open>Router.modules\<close> are plain objects
  read with \<open>obj[name]\<close> and written with \<open>obj[name] = v\<close>, under any string. Such an
  object answers for its own properties and, for every other name, for what its
  prototype chain has. A fresh \<open>{}\<close> has the prototype \<open>Object.prototype\<close>, whose property
  names are these (ECMAScript 2023 with its Annex B); all are methods but \<open>__proto__\<close>,
  an accessor whose getter returns the prototype of the object read, and whose setter
  replaces that prototype when it is given an object or \<open>null\<close> and does nothing
  otherwise.
\<close>

definition object_prototype_names :: "string list" where
  "object_prototype_names =
     [''constructor'', ''__defineGetter__'', ''__defineSetter__'', ''hasOwnProperty'',
      ''__lookupGetter__'', ''__lookupSetter__'', ''isPrototypeOf'',
      ''propertyIsEnumerable'', ''toString'', ''valueOf'', ''__proto__'',
      ''toLocaleString'']"

text \<open>
  \<open>Object.prototype[name]\<close>, reached from an object whose prototype, as a value, is
  \<open>parent\<close>.
\<close>

definition from_object_prototype :: "jsvalue \<Rightarrow> string \<Rightarrow> jsvalue" where
  "from_object_prototype parent name =
     (if name = ''__proto__'' then parent
      else if name \<in> set object_prototype_names then Builtin (ObjectMember name)
      else Undefined)"

text \<open>
  The cache can come to have another prototype: \<open>null\<close>, or a JSON object or array
  assigned to \<open>__proto__\<close>. An array has its elements under their indices and its
  \<open>length\<close>, and inherits the methods of \<open>Array.prototype\<close> (ECMAScript 2023).
\<close>

definition array_prototype_names :: "string list" where
  "array_prototype_names =
     [''at'', ''concat'', ''constructor'', ''copyWithin'', ''entries'', ''every'', ''fill'',
      ''filter'', ''find'', ''findIndex'', ''findLast'', ''findLastIndex'', ''flat'',
      ''flatMap'', ''forEach'', ''includes'', ''indexOf'', ''join'', ''keys'',
      ''lastIndexOf'', ''map'', ''pop'', ''push'', ''reduce'', ''reduceRight'', ''reverse'',
      ''shift'', ''slice'', ''some'', ''sort'', ''splice'', ''toLocaleString'',
      ''toReversed'', ''toSorted'', ''toSpliced'', ''toString'', ''unshift'', ''values'',
      ''with'']"

text \<open>The array index a property name stands for: decimal digits, no leading zero.\<close>

definition index_of :: "string \<Rightarrow> nat option" where
  "index_of s =
     (if s = [] \<or> \<not> list_all (\<lambda>c. c \<in> set ''0123456789'') s \<or> (1 < length s \<and> hd s = CHR ''0'')
      then None
      else Some (foldl (\<lambda>n c. 10 * n + (of_char c - 48)) 0 s))"

definition array_own :: "json list \<Rightarrow> string \<Rightarrow> json option" where
  "array_own xs name =
     (if name = ''length'' then Some (JNum (of_nat (length xs)))
      else (case index_of name of
              Some i \<Rightarrow> if i < length xs then Some (xs ! i) else None
            | None \<Rightarrow> None))"

datatype proto =
    ObjectProto
  | NullProto
  | ObjProto "(string \<times> json) list"
  | ArrProto "json list"

record dictionary =
  own :: "string \<rightharpoonup> json"
  prototype :: proto

text \<open>\<open>{}\<close>\<close>

definition empty_object :: dictionary where
  "empty_object = \<lparr>own = Map.empty, prototype = ObjectProto\<rparr>"

text \<open>\<open>obj[name]\<close>\<close>

definition get_property :: "dictionary \<Rightarrow> string \<Rightarrow> jsvalue" where
  "get_property obj name =
     (case own obj name of
        Some v \<Rightarrow> Data v
      | None \<Rightarrow>
          (case prototype obj of
             NullProto \<Rightarrow> Undefined
           | ObjectProto \<Rightarrow> from_object_prototype (Builtin ObjectPrototype) name
           | ObjProto kvs \<Rightarrow>
               (case map_of kvs name of
                  Some v \<Rightarrow> Data v
                | None \<Rightarrow> from_object_prototype (Data (JObj kvs)) name)
           | ArrProto xs \<Rightarrow>
               (case array_own xs name of
                  Some v \<Rightarrow> Data v
                | None \<Rightarrow>
                    if name \<in> set array_prototype_names then Builtin (ArrayMember name)
                    else from_object_prototype (Data (JArr xs)) name)))"

text \<open>
  Whether \<open>obj['__proto__'] = v\<close> reaches the setter of \<open>Object.prototype\<close>: it does
  unless the object, or the JSON object that is its prototype, has a property of its
  own under that name, or the prototype is \<open>null\<close>.
\<close>

definition reaches_setter :: "dictionary \<Rightarrow> bool" where
  "reaches_setter obj =
     (own obj ''__proto__'' = None \<and>
      (case prototype obj of
         NullProto \<Rightarrow> False
       | ObjectProto \<Rightarrow> True
       | ObjProto kvs \<Rightarrow> map_of kvs ''__proto__'' = None
       | ArrProto xs \<Rightarrow> True))"

text \<open>
  \<open>obj[name] = v\<close>. Every inherited property other than the accessor is a writable data
  property, so the assignment makes or overwrites a property of the object's own.
\<close>

definition set_property :: "string \<Rightarrow> json \<Rightarrow> dictionary \<Rightarrow> dictionary" where
  "set_property name v obj =
     (if name = ''__proto__'' \<and> reaches_setter obj
      then (case v of
              JNull \<Rightarrow> obj\<lparr>prototype := NullProto\<rparr>
            | JObj kvs \<Rightarrow> obj\<lparr>prototype := ObjProto kvs\<rparr>
            | JArr xs \<Rightarrow> obj\<lparr>prototype := ArrProto xs\<rparr>
            | _ \<Rightarrow> obj)
      else obj\<lparr>own := (own obj)(name \<mapsto> v)\<rparr>)"

type_synonym fileName = string
type_synonym viewName = string

section \<open>The host: remote retrieval, local storage, console\<close>

text \<open>
  What \<open>fetch(url)\<close> gives: \<open>None\<close> when the promise rejects (no network), otherwise a
  response with its \<open>ok\<close> flag and its body, \<open>None\<close> when the body is not JSON text and
  \<open>response.json()\<close> rejects.
\<close>

record response =
  ok :: bool
  body :: "json option"

type_synonym remote = "string \<Rightarrow> response option"

datatype error =
    NetworkError
  | FailedToLoadData
  | SyntaxError
  | QuotaExceededError
  | TypeError

text \<open>
  \<open>localStorage.setItem\<close> stores a string or throws when the quota is exceeded. The
  string \<open>JSON.stringify(data)\<close> is kept as the term \<open>JSON_stringify data\<close>.
\<close>

datatype stored = JSON_stringify json

datatype quota = WithinQuota | QuotaExceeded

definition setItem ::
  "quota \<Rightarrow> (string \<rightharpoonup> stored) \<Rightarrow> string \<Rightarrow> stored \<Rightarrow> error + (string \<rightharpoonup> stored)" where
  "setItem q storage k v =
     (case q of
        QuotaExceeded \<Rightarrow> Inl QuotaExceededError
      | WithinQuota \<Rightarrow> Inr (storage(k \<mapsto> v)))"

text \<open>
  What the user is shown by the form handlers: an \<open>alert\<close>, a toast, or a list written
  into the module's workspace element (recorded as the value the list is built from;
  building the markup is not modelled). The two alerts are the Hebrew messages asking for
  a title and for a project name.
\<close>

datatype notice =
    AlertTitleRequired
  | AlertProjectNameRequired
  | ToastTaskCreated
  | ToastItemSaved
  | ToastProjectCreated
  | TaskListShown json
  | KnowledgeListShown json
  | ProjectListShown json

text \<open>
  The state: the cache of the one \<open>DataManager\<close>, the browser's local storage and
  console, what the user has been shown, and two logs kept for observation: the URLs
  handed to \<open>fetch\<close>, in order, and the calls made to the store.
\<close>

datatype call = LoadCall fileName | SaveCall fileName json

record world =
  cache :: dictionary
  localStorage :: "string \<rightharpoonup> stored"
  console :: "string list"
  ui :: "notice list"
  requests :: "string list"
  calls :: "call list"

definition new_world :: world where
  "new_world = \<lparr>cache = empty_object, localStorage = Map.empty, console = [],
                 ui = [], requests = [], calls = []\<rparr>"

section \<open>DataManager\<close>

definition baseUrl :: string where
  "baseUrl = ''data/''"

definition defaults :: "(string \<times> json) list" where
  "defaults =
     [(''dashboard.json'',
         JObj [(''tasks'', JArr []), (''reviews'', JArr []),
               (''writingProgress'', JObj []), (''knowledgeSummary'', JObj [])]),
      (''documents.json'', JObj [(''documents'', JArr [])]),
      (''knowledge.json'', JObj [(''items'', JArr [])]),
      (''writing_projects.json'', JObj [(''projects'', JArr [])]),
      (''tasks.json'',
         JObj [(''tasks'', JArr []), (''reviews'', JArr []), (''metrics'', JObj [])])]"

text \<open>
  \<open>defaults[fileName] || {}\<close>, where \<open>defaults\<close> is the object literal with these five
  properties.
\<close>

definition getDefaultData :: "fileName \<Rightarrow> jsvalue" where
  "getDefaultData fileName =
     (let found = get_property \<lparr>own = map_of defaults, prototype = ObjectProto\<rparr> fileName
      in if truthy_value found then found else Data (JObj []))"

text \<open>
  The body of the \<open>try\<close> block of \<open>load\<close>, up to the value of \<open>data\<close>: each way it can
  throw is an error value.
\<close>

definition fetch_json :: "remote \<Rightarrow> string \<Rightarrow> error + json" where
  "fetch_json fetch url =
     (case fetch url of
        None \<Rightarrow> Inl NetworkError
      | Some response \<Rightarrow>
          if \<not> ok response then Inl FailedToLoadData
          else (case body response of
                  None \<Rightarrow> Inl SyntaxError
                | Some data \<Rightarrow> Inr data))"

text \<open>\<open>if (this.cache[fileName])\<close>: the value that passes the test, if it does.\<close>

definition cache_hit :: "world \<Rightarrow> fileName \<Rightarrow> jsvalue option" where
  "cache_hit w fileName =
     (if truthy_value (get_property (cache w) fileName)
      then Some (get_property (cache w) fileName) else None)"

definition load :: "remote \<Rightarrow> fileName \<Rightarrow> world \<Rightarrow> jsvalue \<times> world" where
  "load fetch fileName w0 =
     (let w = w0\<lparr>calls := calls w0 @ [LoadCall fileName]\<rparr> in
      case cache_hit w fileName of
        Some v \<Rightarrow> (v, w)
      | None \<Rightarrow>
          (let url = baseUrl @ fileName;
               w1 = w\<lparr>requests := requests w @ [url]\<rparr>
           in case fetch_json fetch url of
                Inr data \<Rightarrow> (Data data, w1\<lparr>cache := set_property fileName data (cache w1)\<rparr>)
              | Inl e \<Rightarrow>
                  (getDefaultData fileName,
                   w1\<lparr>console := console w1 @ [''Error loading '' @ fileName @ '':'']\<rparr>)))"

definition save :: "quota \<Rightarrow> fileName \<Rightarrow> json \<Rightarrow> world \<Rightarrow> (error + bool) \<times> world" where
  "save q fileName data w0 =
     (let w = w0\<lparr>calls := calls w0 @ [SaveCall fileName data]\<rparr>;
          w1 = w\<lparr>cache := set_property fileName data (cache w)\<rparr>
      in case setItem q (localStorage w1) (''btk_'' @ fileName) (JSON_stringify data) of
           Inl e \<Rightarrow> (Inl e, w1)
         | Inr storage \<Rightarrow>
             (Inr True,
              w1\<lparr>localStorage := storage,
                 console := console w1 @ [''[BTK] Data saved: '' @ fileName]\<rparr>))"

text \<open>\<open>this.dm.cache = {}\<close>, the first statement of \<open>DashboardModule.refresh\<close>.\<close>

definition clearCache :: "world \<Rightarrow> world" where
  "clearCache w = w\<lparr>cache := empty_object\<rparr>"

text \<open>Three remotes for the examples: every request answered 404, no network, and a
  server that has the task list.\<close>

definition remote_404 :: remote where
  "remote_404 url = Some \<lparr>ok = False, body = None\<rparr>"

definition remote_offline :: remote where
  "remote_offline url = None"

definition remote_tasks :: remote where
  "remote_tasks url =
     (if url = ''data/tasks.json''
      then Some \<lparr>ok = True,
                 body = Some (JObj [(''tasks'', JArr [JObj [(''id'', JStr ''a'')]]),
                                    (''metrics'', JObj [])])\<rparr>
      else Some \<lparr>ok = False, body = None\<rparr>)"

section \<open>Router\<close>

text \<open>
  The router writes one thing itself: the content of the \<open>#app\<close> element, when no module
  answers to the name. A module is an object with a \<open>render()\<close> method, made by a class
  as the five of the script are: its members are fields and methods, none of them an
  accessor, read-only or named \<open>__proto__\<close>. What a call of \<open>render\<close> does before it
  returns is the parameter \<open>render\<close> of \<open>navigate\<close>: the error it throws, if it throws one,
  and the content it leaves in the element; every call is logged in \<open>rendered\<close>.
  \<open>navigate\<close> has no \<open>try\<close>: what \<open>render\<close> throws, it throws. (The five modules'
  \<open>render\<close> are \<open>async\<close>: the call returns a promise, which \<open>navigate\<close> does not await,
  and throws nothing.)
\<close>

datatype 'c html = ModuleNotFound | Markup 'c

text \<open>
  What \<open>this.modules[viewName]\<close> can be: \<open>undefined\<close>; another falsy value; a truthy value
  without a \<open>render\<close> method, on which \<open>module.render()\<close> throws a TypeError; or a
  module.
\<close>

datatype 'm slot = Absent | Falsy | NoRender | Module 'm

text \<open>
  The registry \<open>this.modules\<close> is a plain object too. A module assigned under
  \<open>__proto__\<close> becomes its prototype (\<open>parent\<close>); the names it does not have are then
  read from that module, whose members are the parameter \<open>members\<close> of \<open>navigate\<close>.
\<close>

record 'm registry =
  entries :: "string \<rightharpoonup> 'm"
  parent :: "'m option"

type_synonym 'm members = "'m \<Rightarrow> string \<Rightarrow> 'm slot"

definition registry_get :: "'m members \<Rightarrow> 'm registry \<Rightarrow> string \<Rightarrow> 'm slot" where
  "registry_get members reg name =
     (case entries reg name of
        Some m \<Rightarrow> Module m
      | None \<Rightarrow>
          (case parent reg of
             None \<Rightarrow> if name \<in> set object_prototype_names then NoRender else Absent
           | Some p \<Rightarrow> if name = ''__proto__'' then Module p else members p name))"

definition registry_set :: "string \<Rightarrow> 'm \<Rightarrow> 'm registry \<Rightarrow> 'm registry" where
  "registry_set name m reg =
     (if name = ''__proto__'' \<and> entries reg name = None then reg\<lparr>parent := Some m\<rparr>
      else reg\<lparr>entries := (entries reg)(name \<mapsto> m)\<rparr>)"

record ('m, 'c) router =
  currentView :: "viewName option"
  modules :: "'m registry"
  innerHTML :: "'c html"
  rendered :: "'m list"

definition new_router :: "'c \<Rightarrow> ('m, 'c) router" where
  "new_router page = \<lparr>currentView = None, modules = \<lparr>entries = Map.empty, parent = None\<rparr>,
                       innerHTML = Markup page, rendered = []\<rparr>"

definition registerModule :: "viewName \<Rightarrow> 'm \<Rightarrow> ('m, 'c) router \<Rightarrow> ('m, 'c) router" where
  "registerModule name m r = r\<lparr>modules := registry_set name m (modules r)\<rparr>"

type_synonym ('m, 'c) render = "'m \<Rightarrow> 'c html \<Rightarrow> error option \<times> 'c html"

definition navigate ::
  "('m, 'c) render \<Rightarrow> 'm members \<Rightarrow> viewName \<Rightarrow> ('m, 'c) router
     \<Rightarrow> error option \<times> ('m, 'c) router" where
  "navigate render members viewName r0 =
     (let r = r0\<lparr>currentView := Some viewName\<rparr> in
      case registry_get members (modules r) viewName of
        Module m \<Rightarrow>
          (case render m (innerHTML r) of
             (thrown, page) \<Rightarrow> (thrown, r\<lparr>innerHTML := page, rendered := rendered r @ [m]\<rparr>))
      | NoRender \<Rightarrow> (Some TypeError, r)
      | _ \<Rightarrow> (None, r\<lparr>innerHTML := ModuleNotFound\<rparr>))"

text \<open>The application's five modules and their registration, as at the end of the script.\<close>

datatype app_module = Dashboard | DocLibrary | KnowledgeEnv | WritingStudio | Management

definition app_router :: "string \<Rightarrow> (app_module, string) router" where
  "app_router page =
     registerModule ''management'' Management
       (registerModule ''writing'' WritingStudio
         (registerModule ''knowledge'' KnowledgeEnv
           (registerModule ''docs'' DocLibrary
             (registerModule ''dashboard'' Dashboard (new_router page)))))"

text \<open>
  For the examples: a \<open>render\<close> where each module writes its own name into the element,
  one that throws before it writes anything, and the members of a module that has its
  \<open>render\<close> method, the members of \<open>Object.prototype\<close> and nothing else.
\<close>

fun show_module :: "(app_module, string) render" where
  "show_module Dashboard h = (None, Markup ''dashboard'')"
| "show_module DocLibrary h = (None, Markup ''docs'')"
| "show_module KnowledgeEnv h = (None, Markup ''knowledge'')"
| "show_module WritingStudio h = (None, Markup ''writing'')"
| "show_module Management h = (None, Markup ''management'')"

definition broken_module :: "(app_module, string) render" where
  "broken_module m h = (Some TypeError, h)"

definition bare_module :: "app_module members" where
  "bare_module m name =
     (if name = ''render'' \<or> name \<in> set object_prototype_names then NoRender else Absent)"

section \<open>Form handlers\<close>

text \<open>
  The handlers read their form's fields, and take from the host an identifier
  (\<open>generateId\<close>) and a time stamp (\<open>formatDateTime\<close>). The form is on the page when its
  save button is pressed, so reading a field does not fail. Building the markup of a
  list and writing it into the workspace element is left to the host as well:
  \<open>list_markup\<close> is the error the template throws on the value it is given, if it throws
  one.
\<close>

record host =
  network :: remote
  storage_quota :: quota
  generateId :: string
  formatDateTime :: string
  list_markup :: "notice \<Rightarrow> error option"

record task_form =
  task_title :: string
  task_description :: string
  task_status :: string

record knowledge_form =
  knowledge_title :: string
  knowledge_type :: string
  knowledge_content :: string
  knowledge_summary :: string
  knowledge_course :: string
  knowledge_unit :: string
  knowledge_doctype :: string
  knowledge_language :: string

record project_form =
  project_title :: string
  project_description :: string

text \<open>
  \<open>data.field.push(item)\<close>: a TypeError unless \<open>data\<close> is an object whose \<open>field\<close> is an
  array.
\<close>

definition push_to :: "string \<Rightarrow> json \<Rightarrow> json \<Rightarrow> error + json" where
  "push_to field item data =
     (case data of
        JObj kvs \<Rightarrow>
          (case map_of kvs field of
             Some (JArr xs) \<Rightarrow> Inr (JObj (AList.update field (JArr (xs @ [item])) kvs))
           | _ \<Rightarrow> Inl TypeError)
      | _ \<Rightarrow> Inl TypeError)"

text \<open>
  \<open>data.metrics.k = v\<close>, for \<open>data\<close> an object, in strict mode (a class body): a TypeError
  when \<open>data.metrics\<close> is missing, \<open>null\<close> or a primitive; on an array the new property
  is not an element and leaves the JSON value as it was.
\<close>

definition set_metric :: "string \<Rightarrow> json \<Rightarrow> json \<Rightarrow> error + json" where
  "set_metric k v data =
     (case data of
        JObj kvs \<Rightarrow>
          (case map_of kvs ''metrics'' of
             Some (JObj m) \<Rightarrow>
               Inr (JObj (AList.update ''metrics'' (JObj (AList.update k v m)) kvs))
           | Some (JArr xs) \<Rightarrow> Inr data
           | _ \<Rightarrow> Inl TypeError)
      | _ \<Rightarrow> Inl TypeError)"

text \<open>\<open>tasks.filter(t => t.status === 'completed').length\<close>: reading \<open>t.status\<close> throws on
  \<open>null\<close>.\<close>

fun count_completed :: "json list \<Rightarrow> error + nat" where
  "count_completed [] = Inr 0"
| "count_completed (JNull # ts) = Inl TypeError"
| "count_completed (JObj kvs # ts) =
     (case count_completed ts of
        Inl e \<Rightarrow> Inl e
      | Inr n \<Rightarrow> Inr (if map_of kvs ''status'' = Some (JStr ''completed'') then Suc n else n))"
| "count_completed (t # ts) = count_completed ts"

definition tasks_of :: "json \<Rightarrow> json list" where
  "tasks_of data =
     (case data of
        JObj kvs \<Rightarrow> (case map_of kvs ''tasks'' of Some (JArr xs) \<Rightarrow> xs | _ \<Rightarrow> [])
      | _ \<Rightarrow> [])"

text \<open>
  The three statements of \<open>saveTask\<close> between \<open>load\<close> and \<open>save\<close>. They change the loaded
  object in place: the result is the object as they leave it and the error that stopped
  them, if one did.
\<close>

definition add_task :: "json \<Rightarrow> json \<Rightarrow> json \<times> error option" where
  "add_task task data =
     (case push_to ''tasks'' task data of
        Inl e \<Rightarrow> (data, Some e)
      | Inr d1 \<Rightarrow>
          (case set_metric ''totalTasks'' (JNum (of_nat (length (tasks_of d1)))) d1 of
             Inl e \<Rightarrow> (d1, Some e)
           | Inr d2 \<Rightarrow>
               (case count_completed (tasks_of d2) of
                  Inl e \<Rightarrow> (d2, Some e)
                | Inr n \<Rightarrow>
                    (case set_metric ''completedTasks'' (JNum (of_nat n)) d2 of
                       Inl e \<Rightarrow> (d2, Some e)
                     | Inr d3 \<Rightarrow> (d3, None)))))"

text \<open>
  \<open>load\<close> hands out the object it found, so a change made in place is seen through the
  cache at once; the default shape is a fresh object, which the cache does not hold.
  After \<open>load\<close> returned \<open>data\<close>, the place where the cache holds that object is its own
  property of the name, or else the member of that name of the JSON object that is its
  prototype, when the value there equals \<open>data\<close>.
\<close>

definition changed_in_place :: "fileName \<Rightarrow> json \<Rightarrow> json \<Rightarrow> world \<Rightarrow> world" where
  "changed_in_place fileName data data' w =
     (if own (cache w) fileName = Some data
      then w\<lparr>cache := (cache w)\<lparr>own := (own (cache w))(fileName \<mapsto> data')\<rparr>\<rparr>
      else (case prototype (cache w) of
              ObjProto kvs \<Rightarrow>
                if own (cache w) fileName = None \<and> map_of kvs fileName = Some data
                then w\<lparr>cache := (cache w)\<lparr>prototype := ObjProto (AList.update fileName data' kvs)\<rparr>\<rparr>
                else w
            | _ \<Rightarrow> w))"

text \<open>
  \<open>data.field || []\<close>, a TypeError when \<open>data\<close> is \<open>null\<close>. (None of the three fields read
  this way is a name that strings, arrays or the built-in objects have.)
\<close>

definition list_of :: "string \<Rightarrow> jsvalue \<Rightarrow> error + json" where
  "list_of field data =
     (case data of
        Undefined \<Rightarrow> Inl TypeError
      | Data JNull \<Rightarrow> Inl TypeError
      | Data (JObj kvs) \<Rightarrow>
          (case map_of kvs field of
             Some v \<Rightarrow> Inr (if truthy v then v else JArr [])
           | None \<Rightarrow> Inr (JArr []))
      | _ \<Rightarrow> Inr (JArr []))"

definition showTaskList :: "host \<Rightarrow> world \<Rightarrow> (error + unit) \<times> world" where
  "showTaskList h w =
     (case load (network h) ''tasks.json'' w of
        (data, w1) \<Rightarrow>
          (case list_of ''tasks'' data of
             Inl e \<Rightarrow> (Inl e, w1)
           | Inr tasks \<Rightarrow>
               (case list_markup h (TaskListShown tasks) of
                  Some e \<Rightarrow> (Inl e, w1)
                | None \<Rightarrow> (Inr (), w1\<lparr>ui := ui w1 @ [TaskListShown tasks]\<rparr>))))"

text \<open>
  In the handlers, \<open>data.field.push(item)\<close> and the like throw a TypeError on
  \<open>undefined\<close> and on a built-in value, which has no such field.
\<close>

definition saveTask :: "host \<Rightarrow> task_form \<Rightarrow> world \<Rightarrow> (error + unit) \<times> world" where
  "saveTask h form w =
     (if task_title form = [] then (Inr (), w\<lparr>ui := ui w @ [AlertTitleRequired]\<rparr>)
      else
        let task = JObj [(''id'', JStr (generateId h)),
                         (''title'', JStr (task_title form)),
                         (''description'', JStr (task_description form)),
                         (''status'', JStr (task_status form)),
                         (''createdAt'', JStr (formatDateTime h))]
        in case load (network h) ''tasks.json'' w of
             (Data data, w1) \<Rightarrow>
               (case add_task task data of
                  (data', Some e) \<Rightarrow> (Inl e, changed_in_place ''tasks.json'' data data' w1)
                | (data', None) \<Rightarrow>
                    (case save (storage_quota h) ''tasks.json'' data'
                            (changed_in_place ''tasks.json'' data data' w1) of
                       (Inl e, w2) \<Rightarrow> (Inl e, w2)
                     | (Inr saved, w2) \<Rightarrow>
                         showTaskList h (w2\<lparr>ui := ui w2 @ [ToastTaskCreated]\<rparr>)))
           | (other, w1) \<Rightarrow> (Inl TypeError, w1))"

definition showProjectList :: "host \<Rightarrow> world \<Rightarrow> (error + unit) \<times> world" where
  "showProjectList h w =
     (case load (network h) ''writing_projects.json'' w of
        (data, w1) \<Rightarrow>
          (case list_of ''projects'' data of
             Inl e \<Rightarrow> (Inl e, w1)
           | Inr projects \<Rightarrow>
               (case list_markup h (ProjectListShown projects) of
                  Some e \<Rightarrow> (Inl e, w1)
                | None \<Rightarrow> (Inr (), w1\<lparr>ui := ui w1 @ [ProjectListShown projects]\<rparr>))))"

definition saveNewProject :: "host \<Rightarrow> project_form \<Rightarrow> world \<Rightarrow> (error + unit) \<times> world" where
  "saveNewProject h form w =
     (if project_title form = [] then (Inr (), w\<lparr>ui := ui w @ [AlertProjectNameRequired]\<rparr>)
      else
        let project = JObj [(''id'', JStr (generateId h)),
                            (''title'', JStr (project_title form)),
                            (''description'', JStr (project_description form)),
                            (''parts'', JArr []),
                            (''wordCount'', JNum 0),
                            (''createdAt'', JStr (formatDateTime h))]
        in case load (network h) ''writing_projects.json'' w of
             (Data data, w1) \<Rightarrow>
               (case push_to ''projects'' project data of
                  Inl e \<Rightarrow> (Inl e, w1)
                | Inr data' \<Rightarrow>
                    (case save (storage_quota h) ''writing_projects.json'' data' w1 of
                       (Inl e, w2) \<Rightarrow> (Inl e, w2)
                     | (Inr saved, w2) \<Rightarrow>
                         showProjectList h (w2\<lparr>ui := ui w2 @ [ToastProjectCreated]\<rparr>)))
           | (other, w1) \<Rightarrow> (Inl TypeError, w1))"

text \<open>
  \<open>data.items.find(i => i.id === itemId)\<close> followed by the assignments to the item
  found: the callback throws on a \<open>null\<close> element met before the match.
\<close>

fun edit_first :: "string \<Rightarrow> (json \<Rightarrow> json) \<Rightarrow> json list \<Rightarrow> error + json list" where
  "edit_first itemId f [] = Inr []"
| "edit_first itemId f (JNull # rest) = Inl TypeError"
| "edit_first itemId f (JObj kvs # rest) =
     (if map_of kvs ''id'' = Some (JStr itemId) then Inr (f (JObj kvs) # rest)
      else (case edit_first itemId f rest of
              Inl e \<Rightarrow> Inl e
            | Inr rest' \<Rightarrow> Inr (JObj kvs # rest')))"
| "edit_first itemId f (i # rest) =
     (case edit_first itemId f rest of
        Inl e \<Rightarrow> Inl e
      | Inr rest' \<Rightarrow> Inr (i # rest'))"

definition set_fields :: "(string \<times> json) list \<Rightarrow> json \<Rightarrow> json" where
  "set_fields values item =
     (case item of
        JObj kvs \<Rightarrow> JObj (fold (\<lambda>(k, v). AList.update k v) values kvs)
      | _ \<Rightarrow> item)"

definition edit_item :: "string \<Rightarrow> (string \<times> json) list \<Rightarrow> json \<Rightarrow> error + json" where
  "edit_item itemId values data =
     (case data of
        JObj kvs \<Rightarrow>
          (case map_of kvs ''items'' of
             Some (JArr xs) \<Rightarrow>
               (case edit_first itemId (set_fields values) xs of
                  Inl e \<Rightarrow> Inl e
                | Inr xs' \<Rightarrow> Inr (JObj (AList.update ''items'' (JArr xs') kvs)))
           | _ \<Rightarrow> Inl TypeError)
      | _ \<Rightarrow> Inl TypeError)"

definition showKnowledgeList :: "host \<Rightarrow> world \<Rightarrow> (error + unit) \<times> world" where
  "showKnowledgeList h w =
     (case load (network h) ''knowledge.json'' w of
        (data, w1) \<Rightarrow>
          (case list_of ''items'' data of
             Inl e \<Rightarrow> (Inl e, w1)
           | Inr items \<Rightarrow>
               (case list_markup h (KnowledgeListShown items) of
                  Some e \<Rightarrow> (Inl e, w1)
                | None \<Rightarrow> (Inr (), w1\<lparr>ui := ui w1 @ [KnowledgeListShown items]\<rparr>))))"

text \<open>\<open>saveItem(itemId = null)\<close>: \<open>None\<close> is the call without an argument.\<close>

definition saveItem ::
  "host \<Rightarrow> knowledge_form \<Rightarrow> string option \<Rightarrow> world \<Rightarrow> (error + unit) \<times> world" where
  "saveItem h form itemId w =
     (if knowledge_title form = [] then (Inr (), w\<lparr>ui := ui w @ [AlertTitleRequired]\<rparr>)
      else
        let values = [(''title'', JStr (knowledge_title form)),
                      (''type'', JStr (knowledge_type form)),
                      (''content'', JStr (knowledge_content form)),
                      (''summary'', JStr (knowledge_summary form)),
                      (''course'', JStr (knowledge_course form)),
                      (''unitNumber'', JStr (knowledge_unit form)),
                      (''documentType'', JStr (knowledge_doctype form)),
                      (''language'', JStr (knowledge_language form))]
        in case load (network h) ''knowledge.json'' w of
             (Data data, w1) \<Rightarrow>
               (case (case itemId of
                        Some i \<Rightarrow>
                          if i \<noteq> []
                          then edit_item i (values @ [(''updatedAt'', JStr (formatDateTime h))]) data
                          else push_to ''items''
                                 (JObj ((''id'', JStr (generateId h)) # values @
                                        [(''highlights'', JNum 0), (''notes'', JNum 0),
                                         (''userNotes'', JArr []),
                                         (''createdAt'', JStr (formatDateTime h))])) data
                      | None \<Rightarrow>
                          push_to ''items''
                            (JObj ((''id'', JStr (generateId h)) # values @
                                   [(''highlights'', JNum 0), (''notes'', JNum 0),
                                    (''userNotes'', JArr []),
                                    (''createdAt'', JStr (formatDateTime h))])) data) of
                  Inl e \<Rightarrow> (Inl e, w1)
                | Inr data' \<Rightarrow>
                    (case save (storage_quota h) ''knowledge.json'' data' w1 of
                       (Inl e, w2) \<Rightarrow> (Inl e, w2)
                     | (Inr saved, w2) \<Rightarrow>
                         showKnowledgeList h (w2\<lparr>ui := ui w2 @ [ToastItemSaved]\<rparr>)))
           | (other, w1) \<Rightarrow> (Inl TypeError, w1))"

text \<open>A host and three forms with the title left empty, for the examples.\<close>

definition demo_host :: host where
  "demo_host = \<lparr>network = remote_404, storage_quota = WithinQuota,
                 generateId = ''1700000000000_k3j9x2m1q'',
                 formatDateTime = ''2024-01-01 10:00:00'',
                 list_markup = (\<lambda>shown. None)\<rparr>"

definition empty_task_form :: task_form where
  "empty_task_form = \<lparr>task_title = [], task_description = ''call the printer'',
                       task_status = ''pending''\<rparr>"

definition empty_knowledge_form :: knowledge_form where
  "empty_knowledge_form =
     \<lparr>knowledge_title = [], knowledge_type = ''text'', knowledge_content = ''notes'',
      knowledge_summary = [], knowledge_course = [], knowledge_unit = [],
      knowledge_doctype = [], knowledge_language = ''he''\<rparr>"

definition empty_project_form :: project_form where
  "empty_project_form = \<lparr>project_title = [], project_description = ''a novel''\<rparr>"

section \<open>Reading and writing properties\<close>

lemma get_own:
  "own obj name = Some v \<Longrightarrow> get_property obj name = Data v"
  by (simp add: get_property_def)

lemma get_empty_object:
  "get_property empty_object name = from_object_prototype (Builtin ObjectPrototype) name"
  by (simp add: get_property_def empty_object_def)

lemma inherited_truthy:
  "name \<in> set object_prototype_names \<Longrightarrow> truthy_value up \<Longrightarrow>
   truthy_value (from_object_prototype up name)"
  by (simp add: from_object_prototype_def)


lemma proto_in_names: "''__proto__'' \<in> set object_prototype_names"
  by (simp add: object_prototype_names_def)

lemma array_own_proto: "array_own xs ''__proto__'' = None"
  by (simp add: array_own_def index_of_def)

lemma setter_means_truthy:
  "reaches_setter obj \<Longrightarrow> truthy_value (get_property obj ''__proto__'')"
  by (auto simp: reaches_setter_def get_property_def from_object_prototype_def array_own_proto
      array_prototype_names_def split: proto.splits)

lemma set_then_get:
  "name \<noteq> ''__proto__'' \<or> \<not> reaches_setter obj \<Longrightarrow>
   get_property (set_property name v obj) name = Data v"
  by (auto simp: set_property_def get_property_def)

lemma set_after_miss:
  "\<not> truthy_value (get_property obj name) \<Longrightarrow>
   get_property (set_property name v obj) name = Data v"
  using setter_means_truthy [of obj] set_then_get [of name obj v] by blast


section \<open>Loading, case by case\<close>

lemma cache_hit_calls [simp]: "cache_hit (w\<lparr>calls := c\<rparr>) fileName = cache_hit w fileName"
  by (simp add: cache_hit_def)

lemma cache_hit_iff:
  "cache_hit w fileName = Some v \<longleftrightarrow> get_property (cache w) fileName = v \<and> truthy_value v"
  by (auto simp: cache_hit_def)

lemma cache_miss_iff:
  "cache_hit w fileName = None \<longleftrightarrow> \<not> truthy_value (get_property (cache w) fileName)"
  by (auto simp: cache_hit_def)

lemma load_hit:
  "cache_hit w fileName = Some v \<Longrightarrow>
   load fetch fileName w = (v, w\<lparr>calls := calls w @ [LoadCall fileName]\<rparr>)"
  by (simp add: load_def)

lemma load_miss_ok:
  "cache_hit w fileName = None \<Longrightarrow> fetch_json fetch (baseUrl @ fileName) = Inr data \<Longrightarrow>
   load fetch fileName w =
     (Data data, w\<lparr>calls := calls w @ [LoadCall fileName],
              requests := requests w @ [baseUrl @ fileName],
              cache := set_property fileName data (cache w)\<rparr>)"
  by (simp add: load_def Let_def)

lemma load_miss_failed:
  "cache_hit w fileName = None \<Longrightarrow> fetch_json fetch (baseUrl @ fileName) = Inl e \<Longrightarrow>
   load fetch fileName w =
     (getDefaultData fileName,
      w\<lparr>calls := calls w @ [LoadCall fileName],
        requests := requests w @ [baseUrl @ fileName],
        console := console w @ [''Error loading '' @ fileName @ '':'']\<rparr>)"
  by (simp add: load_def Let_def)

lemma load_result:
  "fst (load fetch fileName w) =
     (case cache_hit w fileName of
        Some v \<Rightarrow> v
      | None \<Rightarrow> (case fetch_json fetch (baseUrl @ fileName) of
                   Inr data \<Rightarrow> Data data
                 | Inl e \<Rightarrow> getDefaultData fileName))"
  by (simp add: load_def Let_def split: option.splits sum.splits)

lemma load_requests:
  "requests (snd (load fetch fileName w)) =
     (case cache_hit w fileName of
        Some v \<Rightarrow> requests w
      | None \<Rightarrow> requests w @ [baseUrl @ fileName])"
  by (simp add: load_def Let_def split: option.splits sum.splits)

lemma load_cache:
  "cache (snd (load fetch fileName w)) =
     (case cache_hit w fileName of
        Some v \<Rightarrow> cache w
      | None \<Rightarrow> (case fetch_json fetch (baseUrl @ fileName) of
                   Inr data \<Rightarrow> set_property fileName data (cache w)
                 | Inl e \<Rightarrow> cache w))"
  by (simp add: load_def Let_def split: option.splits sum.splits)

section \<open>Default shapes\<close>


lemma defaults_objects: "map_of defaults fileName = Some d \<Longrightarrow> truthy d"
  by (auto simp: defaults_def split: if_splits)

lemma getDefaultData_known:
  "map_of defaults fileName = Some d \<Longrightarrow> getDefaultData fileName = Data d"
  by (simp add: getDefaultData_def Let_def get_property_def defaults_objects)


lemma getDefaultData_tasks:
  "getDefaultData ''tasks.json'' =
     Data (JObj [(''tasks'', JArr []), (''reviews'', JArr []), (''metrics'', JObj [])])"
  by (simp add: getDefaultData_known defaults_def)


section \<open>One save\<close>

lemma save_within_quota:
  "save WithinQuota fileName data w =
     (Inr True,
      w\<lparr>calls := calls w @ [SaveCall fileName data],
        cache := set_property fileName data (cache w),
        localStorage := (localStorage w)(''btk_'' @ fileName \<mapsto> JSON_stringify data),
        console := console w @ [''[BTK] Data saved: '' @ fileName]\<rparr>)"
  by (simp add: save_def setItem_def Let_def)

lemma cache_after_save [simp]:
  "cache (snd (save q fileName data w)) = set_property fileName data (cache w)"
  by (cases q) (simp_all add: save_def setItem_def Let_def)

lemma requests_after_save [simp]: "requests (snd (save q fileName data w)) = requests w"
  by (cases q) (simp_all add: save_def setItem_def Let_def)

lemma cache_hit_new_world:
  "cache_hit new_world fileName =
     (if fileName \<in> set object_prototype_names
      then Some (from_object_prototype (Builtin ObjectPrototype) fileName) else None)"
  by (auto simp: cache_hit_def new_world_def get_empty_object from_object_prototype_def
      proto_in_names)

lemma fetch_json_404 [simp]: "fetch_json remote_404 url = Inl FailedToLoadData"
  by (simp add: fetch_json_def remote_404_def)

lemma fetch_json_offline [simp]: "fetch_json remote_offline url = Inl NetworkError"
  by (simp add: fetch_json_def remote_offline_def)

section \<open>Failed retrieval\<close>




section \<open>Round trip through the cache\<close>

lemma new_world_fields [simp]:
  "cache new_world = empty_object"
  "requests new_world = []"
  "calls new_world = []"
  "ui new_world = []"
  "console new_world = []"
  "localStorage new_world = Map.empty"
  by (simp_all add: new_world_def)

lemma clearCache_fields [simp]:
  "cache (clearCache w) = empty_object"
  "requests (clearCache w) = requests w"
  "localStorage (clearCache w) = localStorage w"
  by (simp_all add: clearCache_def)

lemma cache_hit_same_cache:
  "cache w' = cache w \<Longrightarrow> cache_hit w' fileName = cache_hit w fileName"
  by (simp add: cache_hit_def)

lemma cache_hit_after_save:
  "fileName \<noteq> ''__proto__'' \<Longrightarrow>
   cache_hit (snd (save q fileName v w)) fileName = (if truthy v then Some (Data v) else None)"
  by (simp add: cache_hit_def set_then_get)

lemma set_proto_primitive:
  "set_property ''__proto__'' (JNum n) empty_object = empty_object"
  by (simp add: set_property_def reaches_setter_def empty_object_def)

lemma get_proto_empty_object:
  "get_property empty_object ''__proto__'' = Builtin ObjectPrototype"
  by (simp add: get_empty_object from_object_prototype_def)

lemma own_empty_object [simp]: "own empty_object name = None"
  by (simp add: empty_object_def)

text \<open>
  C2, as stated, fails. After \<open>save("tasks.json", null)\<close> the cache entry does not pass
  the test \<open>if (this.cache[fileName])\<close>, so \<open>load\<close> goes to the remote and, on a 404,
  returns the default shape instead of \<open>null\<close>. And \<open>save("__proto__", 5)\<close> makes no entry:
  the assignment reaches the setter of \<open>Object.prototype\<close>, which ignores a number, and
  \<open>load("__proto__")\<close> returns \<open>Object.prototype\<close>.
\<close>

theorem save_null_then_load_counterexample:
  "fst (load remote_404 ''tasks.json'' (snd (save WithinQuota ''tasks.json'' JNull new_world)))
     \<noteq> Data JNull
   \<and> requests (snd (load remote_404 ''tasks.json''
                      (snd (save WithinQuota ''tasks.json'' JNull new_world))))
       = [''data/tasks.json'']
   \<and> fst (load remote_404 ''__proto__'' (snd (save WithinQuota ''__proto__'' (JNum 5) new_world)))
       = Builtin ObjectPrototype"
proof -
  have a: "cache_hit (snd (save WithinQuota ''tasks.json'' JNull new_world)) ''tasks.json'' = None"
    by (simp add: cache_hit_after_save)
  have b: "cache_hit (snd (save WithinQuota ''__proto__'' (JNum 5) new_world)) ''__proto__''
             = Some (Builtin ObjectPrototype)"
    by (simp add: cache_hit_def set_proto_primitive get_proto_empty_object)
  show ?thesis
    by (simp add: load_result load_requests a b getDefaultData_tasks baseUrl_def)
qed

text \<open>
  C2, amended. For a name other than \<open>__proto__\<close> and a truthy value (every object and
  array is one), \<open>save\<close> followed by \<open>load\<close> of the same name returns the value, whether
  or not the local write completed, and hands nothing to \<open>fetch\<close>.
\<close>

theorem save_then_load_truthy:
  assumes "truthy v" and "fileName \<noteq> ''__proto__''"
  shows "fst (load fetch fileName (snd (save q fileName v w))) = Data v
       \<and> requests (snd (load fetch fileName (snd (save q fileName v w)))) = requests w"
  using assms by (simp add: load_result load_requests cache_hit_after_save)

theorem save_then_load_truthy_witness:
  "truthy (JObj [(''documents'', JArr [JObj [(''id'', JStr ''a'')]])])
   \<and> ''documents.json'' \<noteq> ''__proto__''
   \<and> fst (load remote_404 ''documents.json''
        (snd (save WithinQuota ''documents.json''
               (JObj [(''documents'', JArr [JObj [(''id'', JStr ''a'')]])]) new_world)))
     = Data (JObj [(''documents'', JArr [JObj [(''id'', JStr ''a'')]])])
   \<and> requests (snd (load remote_404 ''documents.json''
        (snd (save WithinQuota ''documents.json''
               (JObj [(''documents'', JArr [JObj [(''id'', JStr ''a'')]])]) new_world)))) = []"
  using save_then_load_truthy
    [of "JObj [(''documents'', JArr [JObj [(''id'', JStr ''a'')]])]" "''documents.json''"
        remote_404 WithinQuota new_world]
  by simp

section \<open>Two loads in a row\<close>

text \<open>
  C3, as stated, fails: a failed retrieval stores nothing in the cache, so the second
  \<open>load\<close> of the same name asks the remote again.
\<close>

theorem load_twice_after_failure_counterexample:
  "requests (snd (load remote_404 ''tasks.json'' (snd (load remote_404 ''tasks.json'' new_world))))
     = [''data/tasks.json'', ''data/tasks.json'']"
proof -
  have a: "cache_hit new_world ''tasks.json'' = None"
    by (simp add: cache_hit_new_world object_prototype_names_def)
  have "cache (snd (load remote_404 ''tasks.json'' new_world)) = cache new_world"
    by (simp add: load_cache a)
  then have "cache_hit (snd (load remote_404 ''tasks.json'' new_world)) ''tasks.json''
               = cache_hit new_world ''tasks.json''"
    by (rule cache_hit_same_cache)
  with a have b: "cache_hit (snd (load remote_404 ''tasks.json'' new_world)) ''tasks.json'' = None"
    by simp
  show ?thesis
    by (simp add: load_requests a b baseUrl_def)
qed

lemma cache_hit_after_load:
  "cache_hit (snd (load fetch fileName w)) fileName =
     (case cache_hit w fileName of
        Some v \<Rightarrow> Some v
      | None \<Rightarrow> (case fetch_json fetch (baseUrl @ fileName) of
                   Inr data \<Rightarrow> if truthy data then Some (Data data) else None
                 | Inl e \<Rightarrow> None))"
proof (cases "cache_hit w fileName")
  case (Some v)
  then show ?thesis by (simp add: load_hit)
next
  case None
  then have miss: "\<not> truthy_value (get_property (cache w) fileName)"
    by (simp add: cache_miss_iff)
  show ?thesis
  proof (cases "fetch_json fetch (baseUrl @ fileName)")
    case (Inl e)
    with None have "cache (snd (load fetch fileName w)) = cache w"
      by (simp add: load_cache)
    then have "cache_hit (snd (load fetch fileName w)) fileName = cache_hit w fileName"
      by (rule cache_hit_same_cache)
    with None Inl show ?thesis
      by simp
  next
    case (Inr data)
    with None miss show ?thesis
      by (simp add: load_cache cache_hit_def set_after_miss)
  qed
qed

text \<open>
  C3, amended. When the first \<open>load\<close> is served from the cache, or its retrieval
  succeeds with a truthy document, the second \<open>load\<close> of the name is a cache hit: it
  returns the same value and hands nothing to \<open>fetch\<close>, so the two calls make at most
  one retrieval.
\<close>

theorem load_twice_one_retrieval:
  assumes "cache_hit w fileName = Some v
         \<or> (fetch_json fetch1 (baseUrl @ fileName) = Inr d \<and> truthy d)"
  shows "fst (load fetch2 fileName (snd (load fetch1 fileName w))) = fst (load fetch1 fileName w)
       \<and> requests (snd (load fetch2 fileName (snd (load fetch1 fileName w))))
           = requests (snd (load fetch1 fileName w))
       \<and> length (requests (snd (load fetch2 fileName (snd (load fetch1 fileName w)))))
           \<le> length (requests w) + 1"
  using assms
  by (auto simp: load_result [of fetch2] load_requests [of fetch2] cache_hit_after_load
      load_result [of fetch1] load_requests [of fetch1] split: option.splits)

lemma fetch_json_tasks:
  "fetch_json remote_tasks ''data/tasks.json'' =
     Inr (JObj [(''tasks'', JArr [JObj [(''id'', JStr ''a'')]]), (''metrics'', JObj [])])"
  by (simp add: fetch_json_def remote_tasks_def)

theorem load_twice_one_retrieval_witness:
  "fetch_json remote_tasks (baseUrl @ ''tasks.json'') =
     Inr (JObj [(''tasks'', JArr [JObj [(''id'', JStr ''a'')]]), (''metrics'', JObj [])])
   \<and> truthy (JObj [(''tasks'', JArr [JObj [(''id'', JStr ''a'')]]), (''metrics'', JObj [])])
   \<and> requests (snd (load remote_offline ''tasks.json''
                      (snd (load remote_tasks ''tasks.json'' new_world))))
       = [''data/tasks.json'']
   \<and> fst (load remote_offline ''tasks.json'' (snd (load remote_tasks ''tasks.json'' new_world)))
       = Data (JObj [(''tasks'', JArr [JObj [(''id'', JStr ''a'')]]), (''metrics'', JObj [])])"
proof -
  let ?doc = "JObj [(''tasks'', JArr [JObj [(''id'', JStr ''a'')]]), (''metrics'', JObj [])]"
  have a: "fetch_json remote_tasks (baseUrl @ ''tasks.json'') = Inr ?doc"
    by (simp add: baseUrl_def fetch_json_tasks)
  have b: "truthy ?doc"
    by simp
  from a b have c: "cache_hit new_world ''tasks.json'' = Some (Data ?doc)
     \<or> (fetch_json remote_tasks (baseUrl @ ''tasks.json'') = Inr ?doc \<and> truthy ?doc)"
    by blast
  have miss: "cache_hit new_world ''tasks.json'' = None"
    by (simp add: cache_hit_new_world object_prototype_names_def)
  have d: "fst (load remote_tasks ''tasks.json'' new_world) = Data ?doc"
    "requests (snd (load remote_tasks ''tasks.json'' new_world)) = [''data/tasks.json'']"
    using a miss by (simp_all add: load_miss_ok baseUrl_def)
  show ?thesis
    using load_twice_one_retrieval [OF c, of remote_offline] a b d
    by simp
qed

section \<open>Clearing the cache\<close>

lemma cache_hit_cleared:
  "cache_hit (clearCache w) fileName =
     (if fileName \<in> set object_prototype_names
      then Some (from_object_prototype (Builtin ObjectPrototype) fileName) else None)"
  by (auto simp: cache_hit_def get_empty_object from_object_prototype_def proto_in_names)




section \<open>Saving\<close>




section \<open>The local store is write-only\<close>

text \<open>
  C9. \<open>load\<close> does not read local storage: with any other content of the storage it
  returns the same value and leaves the same state. After \<open>save\<close> and a cleared cache
  the value is still in the storage, and \<open>load\<close> returns what the remote has, or the
  default shape (or, for a name the empty cache inherits, the inherited member).
\<close>

theorem load_ignores_localStorage:
  "load fetch fileName (w\<lparr>localStorage := s\<rparr>) =
     (fst (load fetch fileName w), (snd (load fetch fileName w))\<lparr>localStorage := s\<rparr>)
   \<and> localStorage (clearCache (snd (save WithinQuota fileName v w))) (''btk_'' @ fileName)
       = Some (JSON_stringify v)
   \<and> fst (load fetch fileName (clearCache (snd (save WithinQuota fileName v w)))) =
       (if fileName \<in> set object_prototype_names then get_property empty_object fileName
        else (case fetch_json fetch (baseUrl @ fileName) of
                Inr data \<Rightarrow> Data data
              | Inl e \<Rightarrow> getDefaultData fileName))"
proof -
  have a: "load fetch fileName (w\<lparr>localStorage := s\<rparr>) =
     (fst (load fetch fileName w), (snd (load fetch fileName w))\<lparr>localStorage := s\<rparr>)"
    by (simp add: load_def cache_hit_def Let_def split: option.splits sum.splits)
  have b: "localStorage (clearCache (snd (save WithinQuota fileName v w))) (''btk_'' @ fileName)
       = Some (JSON_stringify v)"
    by (simp add: save_within_quota)
  have c: "fst (load fetch fileName (clearCache (snd (save WithinQuota fileName v w)))) =
       (if fileName \<in> set object_prototype_names then get_property empty_object fileName
        else (case fetch_json fetch (baseUrl @ fileName) of
                Inr data \<Rightarrow> Data data
              | Inl e \<Rightarrow> getDefaultData fileName))"
    by (simp add: load_result cache_hit_cleared get_empty_object)
  from a b c show ?thesis by blast
qed

section \<open>The cache test is truthiness\<close>

text \<open>
  C10. A cache entry that is \<open>null\<close>, \<open>false\<close>, \<open>0\<close> or the empty string is falsy, and
  \<open>load\<close> treats a falsy entry as a miss: it hands the URL to \<open>fetch\<close>. Only a truthy
  entry is returned without a retrieval.
\<close>

theorem falsy_cache_entry_is_a_miss:
  assumes "get_property (cache w) fileName = Data v"
  shows "(v \<in> set [JNull, JBool False, JNum 0, JStr []] \<longrightarrow> \<not> truthy v)
       \<and> (\<not> truthy v \<longrightarrow>
            requests (snd (load fetch fileName w)) = requests w @ [baseUrl @ fileName]
          \<and> fst (load fetch fileName w) =
              (case fetch_json fetch (baseUrl @ fileName) of
                 Inr data \<Rightarrow> Data data
               | Inl e \<Rightarrow> getDefaultData fileName))
       \<and> (truthy v \<longrightarrow>
            requests (snd (load fetch fileName w)) = requests w
          \<and> fst (load fetch fileName w) = Data v)"
  using assms by (auto simp: load_result load_requests cache_hit_def)

theorem falsy_cache_entry_is_a_miss_witness:
  "get_property (cache (snd (save WithinQuota ''tasks.json'' JNull new_world))) ''tasks.json''
     = Data JNull
   \<and> JNull \<in> set [JNull, JBool False, JNum 0, JStr []]
   \<and> \<not> truthy JNull
   \<and> requests (snd (load remote_404 ''tasks.json''
                      (snd (save WithinQuota ''tasks.json'' JNull new_world))))
       = [''data/tasks.json'']
   \<and> get_property (cache (snd (save WithinQuota ''tasks.json'' (JArr []) new_world))) ''tasks.json''
       = Data (JArr [])
   \<and> truthy (JArr [])
   \<and> requests (snd (load remote_404 ''tasks.json''
                      (snd (save WithinQuota ''tasks.json'' (JArr []) new_world))))
       = []
   \<and> fst (load remote_404 ''tasks.json'' (snd (save WithinQuota ''tasks.json'' (JArr []) new_world)))
       = Data (JArr [])"
proof -
  have a: "get_property (cache (snd (save WithinQuota ''tasks.json'' JNull new_world))) ''tasks.json''
     = Data JNull"
    by (simp add: set_then_get)
  have b: "get_property (cache (snd (save WithinQuota ''tasks.json'' (JArr []) new_world)))
             ''tasks.json'' = Data (JArr [])"
    by (simp add: set_then_get)
  show ?thesis
    using falsy_cache_entry_is_a_miss [OF a, of remote_404]
      falsy_cache_entry_is_a_miss [OF b, of remote_404] a b
    by (simp add: baseUrl_def)
qed

section \<open>Navigation\<close>

lemma navigate_module:
  "registry_get members (modules r) name = Module m \<Longrightarrow>
   navigate render members name r =
     (fst (render m (innerHTML r)),
      r\<lparr>currentView := Some name, innerHTML := snd (render m (innerHTML r)),
        rendered := rendered r @ [m]\<rparr>)"
  by (simp add: navigate_def Let_def split: prod.splits)



lemma modules_navigate [simp]: "modules (snd (navigate render members name r)) = modules r"
  by (simp add: navigate_def Let_def split: slot.splits prod.splits)

lemma registered_found:
  "registry_get members (modules (registerModule name m r)) name = Module m"
  by (auto simp: registry_get_def registerModule_def registry_set_def split: option.splits)

lemma registry_get_plain:
  "parent reg = None \<Longrightarrow>
   registry_get members reg name =
     (case entries reg name of
        Some m \<Rightarrow> Module m
      | None \<Rightarrow> if name \<in> set object_prototype_names then NoRender else Absent)"
  by (simp add: registry_get_def split: option.splits)

text \<open>
  C5. For a name under which the registry holds a module, each \<open>navigate\<close> sets the
  current view to the name and calls the \<open>render\<close> of that module, and of no other,
  once; a second call with the same name calls it once more.
\<close>

theorem navigate_registered_renders_once:
  assumes "registry_get members (modules r) name = Module m"
  shows "currentView (snd (navigate render members name r)) = Some name
       \<and> rendered (snd (navigate render members name r)) = rendered r @ [m]
       \<and> innerHTML (snd (navigate render members name r)) = snd (render m (innerHTML r))
       \<and> fst (navigate render members name r) = fst (render m (innerHTML r))
       \<and> currentView (snd (navigate render members name (snd (navigate render members name r))))
           = Some name
       \<and> rendered (snd (navigate render members name (snd (navigate render members name r))))
           = rendered r @ [m, m]"
proof -
  let ?r1 = "snd (navigate render members name r)"
  have once: "navigate render members name r =
      (fst (render m (innerHTML r)),
       r\<lparr>currentView := Some name, innerHTML := snd (render m (innerHTML r)),
         rendered := rendered r @ [m]\<rparr>)"
    by (rule navigate_module [OF assms])
  have "registry_get members (modules ?r1) name = Module m"
    using assms by simp
  then have twice: "navigate render members name ?r1 =
      (fst (render m (innerHTML ?r1)),
       ?r1\<lparr>currentView := Some name, innerHTML := snd (render m (innerHTML ?r1)),
           rendered := rendered ?r1 @ [m]\<rparr>)"
    by (rule navigate_module)
  have "rendered (snd (navigate render members name ?r1)) = rendered ?r1 @ [m]"
    and "currentView (snd (navigate render members name ?r1)) = Some name"
    by (subst twice, simp)+
  then show ?thesis
    by (simp add: once)
qed

lemma modules_app_router:
  "entries (modules (app_router page)) =
     [''dashboard'' \<mapsto> Dashboard, ''docs'' \<mapsto> DocLibrary, ''knowledge'' \<mapsto> KnowledgeEnv,
      ''writing'' \<mapsto> WritingStudio, ''management'' \<mapsto> Management]"
  "parent (modules (app_router page)) = None"
  by (simp_all add: app_router_def registerModule_def registry_set_def new_router_def)

lemma app_router_fields [simp]:
  "rendered (app_router page) = []"
  "currentView (app_router page) = None"
  "innerHTML (app_router page) = Markup page"
  by (simp_all add: app_router_def registerModule_def new_router_def)

lemma app_router_dashboard:
  "registry_get members (modules (app_router page)) ''dashboard'' = Module Dashboard"
  by (simp add: registry_get_plain modules_app_router)


theorem navigate_registered_renders_once_witness:
  "registry_get bare_module (modules (app_router ''loading'')) ''dashboard'' = Module Dashboard
   \<and> currentView (snd (navigate show_module bare_module ''dashboard'' (app_router ''loading'')))
       = Some ''dashboard''
   \<and> rendered (snd (navigate show_module bare_module ''dashboard'' (app_router ''loading'')))
       = [Dashboard]
   \<and> innerHTML (snd (navigate show_module bare_module ''dashboard'' (app_router ''loading'')))
       = Markup ''dashboard''
   \<and> rendered (snd (navigate show_module bare_module ''dashboard''
                 (snd (navigate show_module bare_module ''dashboard'' (app_router ''loading'')))))
       = [Dashboard, Dashboard]"
  using navigate_registered_renders_once
          [OF app_router_dashboard [of bare_module "''loading''"], where render = show_module]
    app_router_dashboard [of bare_module "''loading''"]
  by simp




text \<open>With a module registered, the same \<open>render\<close> does throw through \<open>navigate\<close>.\<close>

lemma navigate_broken_module:
  "fst (navigate broken_module bare_module ''dashboard'' (app_router ''loading'')) = Some TypeError"
  by (simp add: navigate_module [OF app_router_dashboard] broken_module_def)

text \<open>A module registered under \<open>__proto__\<close> is found under that name, and rendered.\<close>

lemma navigate_registered_proto:
  "rendered (snd (navigate show_module bare_module ''__proto__''
               (registerModule ''__proto__'' Dashboard (new_router ''loading'')))) = [Dashboard]"
  by (simp add: navigate_def registry_get_def registerModule_def registry_set_def
      new_router_def Let_def)

section \<open>Forms with an empty title\<close>

text \<open>
  C7. With an empty title field, \<open>saveTask\<close>, \<open>saveItem\<close> and \<open>saveNewProject\<close> show
  their alert and return: no call to \<open>load\<close> or \<open>save\<close> is made, nothing is handed to
  \<open>fetch\<close>, and the cache and the local storage are as before.
\<close>

theorem empty_title_touches_no_store:
  assumes "task_title tf = []" and "knowledge_title kf = []" and "project_title pf = []"
  shows "saveTask h tf w = (Inr (), w\<lparr>ui := ui w @ [AlertTitleRequired]\<rparr>)
       \<and> saveItem h kf itemId w = (Inr (), w\<lparr>ui := ui w @ [AlertTitleRequired]\<rparr>)
       \<and> saveNewProject h pf w = (Inr (), w\<lparr>ui := ui w @ [AlertProjectNameRequired]\<rparr>)
       \<and> (\<forall>w' \<in> {snd (saveTask h tf w), snd (saveItem h kf itemId w), snd (saveNewProject h pf w)}.
            calls w' = calls w \<and> requests w' = requests w
          \<and> cache w' = cache w \<and> localStorage w' = localStorage w)"
  using assms by (simp add: saveTask_def saveItem_def saveNewProject_def)

theorem empty_title_touches_no_store_witness:
  "task_title empty_task_form = [] \<and> knowledge_title empty_knowledge_form = []
   \<and> project_title empty_project_form = []
   \<and> snd (saveTask demo_host empty_task_form new_world) = new_world\<lparr>ui := [AlertTitleRequired]\<rparr>
   \<and> snd (saveItem demo_host empty_knowledge_form None new_world)
       = new_world\<lparr>ui := [AlertTitleRequired]\<rparr>
   \<and> snd (saveNewProject demo_host empty_project_form new_world)
       = new_world\<lparr>ui := [AlertProjectNameRequired]\<rparr>
   \<and> calls (snd (saveTask demo_host empty_task_form new_world)) = []
   \<and> calls (snd (saveItem demo_host empty_knowledge_form None new_world)) = []
   \<and> calls (snd (saveNewProject demo_host empty_project_form new_world)) = []"
proof -
  have a: "task_title empty_task_form = []" by (simp add: empty_task_form_def)
  have b: "knowledge_title empty_knowledge_form = []" by (simp add: empty_knowledge_form_def)
  have c: "project_title empty_project_form = []" by (simp add: empty_project_form_def)
  show ?thesis
    using empty_title_touches_no_store
            [OF a b c, where h = demo_host and itemId = None and w = new_world] a b c
    by simp
qed

text \<open>
  With a title, the same handler does reach the store: on a fresh page with the remote
  answering 404 it loads the default task document, adds the task and the two counters,
  saves, and loads once more to show the list.
\<close>

lemma load_tasks_on_fresh_page:
  "load remote_404 ''tasks.json'' new_world =
     (Data (JObj [(''tasks'', JArr []), (''reviews'', JArr []), (''metrics'', JObj [])]),
      new_world\<lparr>calls := [LoadCall ''tasks.json''], requests := [''data/tasks.json''],
                console := [''Error loading tasks.json:'']\<rparr>)"
proof -
  have a: "cache_hit new_world ''tasks.json'' = None"
    by (simp add: cache_hit_new_world object_prototype_names_def)
  show ?thesis
    by (simp add: load_miss_failed [OF a fetch_json_404] getDefaultData_tasks baseUrl_def)
qed

lemma saveTask_with_title:
  "calls (snd (saveTask demo_host (empty_task_form\<lparr>task_title := ''print''\<rparr>) new_world)) =
     [LoadCall ''tasks.json'',
      SaveCall ''tasks.json''
        (JObj [(''tasks'', JArr [JObj [(''id'', JStr ''1700000000000_k3j9x2m1q''),
                                       (''title'', JStr ''print''),
                                       (''description'', JStr ''call the printer''),
                                       (''status'', JStr ''pending''),
                                       (''createdAt'', JStr ''2024-01-01 10:00:00'')]]),
               (''reviews'', JArr []),
               (''metrics'', JObj [(''totalTasks'', JNum 1), (''completedTasks'', JNum 0)])]),
      LoadCall ''tasks.json'']
 \<and> fst (saveTask demo_host (empty_task_form\<lparr>task_title := ''print''\<rparr>) new_world) = Inr ()
 \<and> requests (snd (saveTask demo_host (empty_task_form\<lparr>task_title := ''print''\<rparr>) new_world)) =
     [''data/tasks.json'']
 \<and> ui (snd (saveTask demo_host (empty_task_form\<lparr>task_title := ''print''\<rparr>) new_world)) =
     [ToastTaskCreated,
      TaskListShown (JArr [JObj [(''id'', JStr ''1700000000000_k3j9x2m1q''),
                                       (''title'', JStr ''print''),
                                       (''description'', JStr ''call the printer''),
                                       (''status'', JStr ''pending''),
                                       (''createdAt'', JStr ''2024-01-01 10:00:00'')]])]"
  by (simp add: saveTask_def demo_host_def empty_task_form_def load_tasks_on_fresh_page
      add_task_def push_to_def set_metric_def tasks_of_def
      changed_in_place_def save_def setItem_def Let_def showTaskList_def load_def
      cache_hit_def list_of_def set_property_def get_property_def empty_object_def
      from_object_prototype_def object_prototype_names_def getDefaultData_tasks baseUrl_def)

end
